theory Spec2Isabelle
  imports Complex_Main "HOL-Library.Word"
begin

section \<open>Secure-Wipe: the free-space overwrite engine and the full-disk pipeline\<close>

text \<open>
  A shallow embedding of \<^verbatim>\<open>securewipe.py\<close>. Python's unbounded integers are
  \<^typ>\<open>int\<close>, its strings are \<^typ>\<open>string\<close>, raised exceptions are the left
  summand of a sum type. Everything the program asks of the operating system (the result
  of a write, of a file removal, of a formatting command, the user's answer to a prompt)
  is a parameter of the model.
\<close>

subsection \<open>Pattern selection per pass\<close>

text \<open>Python's \<^verbatim>\<open>d.get(k, default)\<close> on a dictionary.\<close>

definition dict_get :: "('k \<rightharpoonup> 'v) \<Rightarrow> 'k \<Rightarrow> 'v \<Rightarrow> 'v" where
  "dict_get d k dflt = (case d k of None \<Rightarrow> dflt | Some v \<Rightarrow> v)"

text \<open>The literal \<^verbatim>\<open>{1: 'zeroes', 2: 'ones'}\<close> of both pass loops.\<close>

definition cycle_table :: "int \<rightharpoonup> string" where
  "cycle_table = [1 \<mapsto> ''zeroes'', 2 \<mapsto> ''ones'']"

text \<open>
  The head of the pass loop of \<^verbatim>\<open>wipe_free_space\<close>: the five explicit patterns
  are tested one by one, everything else takes the cycling branch.
\<close>

definition wipe_mode :: "string \<Rightarrow> int \<Rightarrow> string" where
  "wipe_mode pattern p =
     (if pattern = ''zeroes'' then ''zeroes''
      else if pattern = ''ones'' then ''ones''
      else if pattern = ''random'' then ''random''
      else if pattern = ''ticks'' then ''ticks''
      else if pattern = ''haha'' then ''haha''
      else if p = 0 then ''random''
      else dict_get cycle_table (p mod 3) ''random'')"

text \<open>
  The head of the pass loop inside \<^verbatim>\<open>format_disk\<close>: only \<^verbatim>\<open>'all'\<close> cycles,
  any other string is taken as the mode.
\<close>

definition format_mode :: "string \<Rightarrow> int \<Rightarrow> string" where
  "format_mode pattern p =
     (if pattern = ''all''
      then (if p = 0 then ''random'' else dict_get cycle_table (p mod 3) ''random'')
      else pattern)"



definition format_modes :: "string \<Rightarrow> int \<Rightarrow> string list" where
  "format_modes pattern passes = map (\<lambda>p. format_mode pattern (int p)) [0..<nat passes]"

subsection \<open>Exceptions, bytes and the operating system\<close>

text \<open>
  The exceptions that can travel through the wipe code. \<open>OSError\<close> carries its errno,
  \<open>SystemExit\<close> the exit code given to \<^verbatim>\<open>sys.exit\<close>; \<open>SystemExit\<close> is not an
  \<^verbatim>\<open>Exception\<close>, so \<^verbatim>\<open>except Exception\<close> lets it pass.
\<close>

datatype pyexc = OSError int | ValueError | ZeroDivisionError | SystemExit int

fun is_Exception :: "pyexc \<Rightarrow> bool" where
  "is_Exception (SystemExit c) = False"
| "is_Exception e = True"

definition ENOSPC :: int where "ENOSPC = 28"
definition EFBIG :: int where "EFBIG = 27"

type_synonym byte = "8 word"

text \<open>Python's \<^verbatim>\<open>b * n\<close> on bytes (empty for \<open>n \<le> 0\<close>) and the slice \<^verbatim>\<open>b[:n]\<close>.\<close>

definition bytes_mul :: "byte list \<Rightarrow> int \<Rightarrow> byte list" where
  "bytes_mul b n = concat (replicate (nat n) b)"

definition slice_to :: "byte list \<Rightarrow> int \<Rightarrow> byte list" where
  "slice_to b n = (if 0 \<le> n then take (nat n) b else take (length b - nat (- n)) b)"

text \<open>
  \<^verbatim>\<open>os.urandom(n)\<close>: the \<open>n\<close> bytes the random device delivers on this call
  (\<open>src\<close>), a \<open>ValueError\<close> for a negative \<open>n\<close>.
\<close>

definition os_urandom :: "(nat \<Rightarrow> byte) \<Rightarrow> int \<Rightarrow> pyexc + byte list" where
  "os_urandom src n = (if n < 0 then Inl ValueError else Inr (map src [0..<nat n]))"

text \<open>The motifs \<^verbatim>\<open>b'3===D'\<close> and \<^verbatim>\<open>b'haha-'\<close>.\<close>

definition ticks_bytes :: "byte list" where
  "ticks_bytes = [0x33, 0x3D, 0x3D, 0x3D, 0x44]"

definition haha_bytes :: "byte list" where
  "haha_bytes = [0x68, 0x61, 0x68, 0x61, 0x2D]"

text \<open>The chunk of one iteration of the write loop of \<^verbatim>\<open>wipe_free_space\<close>.\<close>

definition wipe_chunk :: "(nat \<Rightarrow> byte) \<Rightarrow> string \<Rightarrow> int \<Rightarrow> pyexc + byte list" where
  "wipe_chunk src mode block_size =
     (if mode = ''random'' then os_urandom src block_size
      else if mode = ''ones'' then Inr (bytes_mul [0xFF] block_size)
      else if mode = ''ticks'' then
        Inr (slice_to (bytes_mul ticks_bytes (block_size div int (length ticks_bytes) + 1)) block_size)
      else if mode = ''haha'' then
        Inr (slice_to (bytes_mul haha_bytes (block_size div int (length haha_bytes) + 1)) block_size)
      else Inr (bytes_mul [0x00] block_size))"

text \<open>
  The chunk of one iteration of the write loop inside \<^verbatim>\<open>format_disk\<close>: a mode other
  than random, ones and zeroes falls to the last branch, which draws random bytes.
\<close>

definition format_chunk :: "(nat \<Rightarrow> byte) \<Rightarrow> string \<Rightarrow> int \<Rightarrow> pyexc + byte list" where
  "format_chunk src mode block_size =
     (if mode = ''random'' then os_urandom src block_size
      else if mode = ''ones'' then Inr (bytes_mul [0xFF] block_size)
      else if mode = ''zeroes'' then Inr (bytes_mul [0x00] block_size)
      else os_urandom src block_size)"

text \<open>
  What the operating system answers to one \<^verbatim>\<open>f.write(chunk)\<close>: the chunk is
  written, the call raises \<open>OSError\<close> with an errno, or SIGINT arrives while the loop is
  here and the installed handler runs.
\<close>

datatype write_result = Written | WriteError int | Interrupt

text \<open>How a write loop was left.\<close>

datatype loop_exit = Raised pyexc | Interrupted

text \<open>Lines the program prints, and the stages the full-disk pipeline invokes.\<close>

datatype stage = CacheFlush | RemappedSectors | HiddenAreaCheck | HiddenAreaRemoval
  | RawOverwrite | EnhancedErase | SmartClear | Format | MountLookup
  | FreeSpaceWipe | Reformat

datatype msg = StatusBox int
  | PassStart int string
  | ErrorMsg int
  | WipingError pyexc
  | PassComplete int
  | VerificationComplete
  | WipingComplete
  | OperationInterrupted
  | CleanedUp string
  | CouldNotRemove string
  | WipingCanceled
  | OperationAborted
  | Note string
  | FormatError
  | SkippingWipe
  | EraseComplete

text \<open>
  The state the wipe code works on: the files on the target volume (each with the chunks
  written to it), the cleanup registry \<^verbatim>\<open>temp_files\<close>, the progress bar held in
  \<^verbatim>\<open>progress_bar_container\<close> and its \<^verbatim>\<open>disable\<close> flag, what was printed, the
  number of \<^verbatim>\<open>os.remove\<close> and \<^verbatim>\<open>f.write\<close> calls made so far, and the
  stages of the full-disk pipeline that were invoked.
\<close>

record proc_state =
  disk :: "string \<rightharpoonup> byte list list"
  temp_files :: "string list"
  container :: bool
  bar_disabled :: bool
  out :: "msg list"
  removes :: nat
  write_calls :: nat
  trace :: "stage list"

text \<open>
  The environment of a wipe: the answer of the second \<^verbatim>\<open>get_free_space\<close> query, the
  user's answer to the confirmation box, for each pass the errno of a failing
  \<^verbatim>\<open>open\<close> and the results of the successive writes, for the \<open>k\<close>-th call of
  \<^verbatim>\<open>os.remove\<close> the errno it fails with, and the random device (pass, call, offset).
\<close>

record wipe_env =
  free_space_again :: int
  confirm :: bool
  open_error :: "nat \<Rightarrow> int option"
  writes :: "nat \<Rightarrow> write_result list"
  remove_error :: "nat \<Rightarrow> string \<Rightarrow> int option"
  rnd :: "nat \<Rightarrow> nat \<Rightarrow> nat \<Rightarrow> byte"

definition say :: "msg \<Rightarrow> proc_state \<Rightarrow> proc_state" where
  "say m st = st\<lparr>out := out st @ [m]\<rparr>"

text \<open>\<^verbatim>\<open>os.remove(path)\<close>: the exception it raises, if any, and the state after.\<close>

definition os_remove :: "wipe_env \<Rightarrow> string \<Rightarrow> proc_state \<Rightarrow> pyexc option \<times> proc_state" where
  "os_remove env path st =
     (case remove_error env (removes st) path of
        Some e \<Rightarrow> (Some (OSError e), st\<lparr>removes := Suc (removes st)\<rparr>)
      | None \<Rightarrow> (None, st\<lparr>disk := (disk st)(path := None), removes := Suc (removes st)\<rparr>))"

text \<open>
  \<^verbatim>\<open>cleanup_temp_files\<close>: every registered file that exists is removed; a removal
  that raises is reported and the loop goes on.
\<close>

fun cleanup_loop :: "wipe_env \<Rightarrow> string list \<Rightarrow> proc_state \<Rightarrow> proc_state" where
  "cleanup_loop env [] st = st"
| "cleanup_loop env (t # ts) st =
     cleanup_loop env ts
       (if disk st t \<noteq> None
        then (case os_remove env t st of
                (None, st') \<Rightarrow> say (CleanedUp t) st'
              | (Some e, st') \<Rightarrow> say (CouldNotRemove t) st')
        else st)"

definition cleanup_temp_files :: "wipe_env \<Rightarrow> proc_state \<Rightarrow> proc_state" where
  "cleanup_temp_files env st = cleanup_loop env (temp_files st) st"

text \<open>
  \<^verbatim>\<open>signal_handler\<close>, the same in both functions: silence the progress bar and drop
  the reference, clean up, and leave through \<^verbatim>\<open>sys.exit(130)\<close>.
\<close>

definition signal_handler :: "wipe_env \<Rightarrow> proc_state \<Rightarrow> pyexc \<times> proc_state" where
  "signal_handler env st =
     (let st1 = (if container st then st\<lparr>bar_disabled := True, container := False\<rparr> else st);
          st2 = say OperationInterrupted st1;
          st3 = cleanup_temp_files env st2;
          st4 = say WipingCanceled st3
      in (SystemExit 130, st4))"

subsection \<open>Paths and decimal numerals\<close>

text \<open>\<^verbatim>\<open>os.path.join(a, b)\<close> for a relative \<open>b\<close>, with the POSIX separator.\<close>

definition path_join :: "string \<Rightarrow> string \<Rightarrow> string" where
  "path_join a b = (if a = [] then b else if last a = CHR ''/'' then a @ b else a @ ''/'' @ b)"

definition digit_char :: "nat \<Rightarrow> char" where
  "digit_char d = char_of (48 + d)"

text \<open>\<^verbatim>\<open>str(n)\<close> of a natural number.\<close>

fun str_nat :: "nat \<Rightarrow> string" where
  "str_nat n = (if n < 10 then [digit_char n] else str_nat (n div 10) @ [digit_char (n mod 10)])"

declare str_nat.simps [simp del]

subsection \<open>The write loop and the passes of \<^verbatim>\<open>wipe_free_space\<close>\<close>

text \<open>
  The \<^verbatim>\<open>while True\<close> loop: build the chunk, write it, add \<open>block_size\<close> to
  \<open>written\<close>, flush every hundred blocks (the test \<^verbatim>\<open>written % (block_size * 100)\<close>
  divides by zero for a zero block size). The loop has no exit of its own: it is left by
  an exception or by the signal handler. The list holds what the successive writes
  meet; when it is used up and the next chunk is built, the write is pending and the
  loop has not returned (\<open>None\<close>). The result is how the loop was left, \<open>written\<close>, the chunks in the file and
  the number of \<^verbatim>\<open>f.write\<close> calls. The progress display, which only prints, is left
  out.
\<close>

fun wipe_write_loop ::
  "(nat \<Rightarrow> nat \<Rightarrow> byte) \<Rightarrow> string \<Rightarrow> int \<Rightarrow> write_result list \<Rightarrow> nat \<Rightarrow> int \<Rightarrow> byte list list
     \<Rightarrow> (loop_exit \<times> int \<times> byte list list \<times> nat) option" where
  "wipe_write_loop src mode block_size [] k written file =
     (case wipe_chunk (src k) mode block_size of
        Inl e \<Rightarrow> Some (Raised e, written, file, k)
      | Inr chunk \<Rightarrow> None)"
| "wipe_write_loop src mode block_size (r # rs) k written file =
     (case wipe_chunk (src k) mode block_size of
        Inl e \<Rightarrow> Some (Raised e, written, file, k)
      | Inr chunk \<Rightarrow>
          (case r of
             WriteError e \<Rightarrow> Some (Raised (OSError e), written, file, Suc k)
           | Interrupt \<Rightarrow> Some (Interrupted, written, file, Suc k)
           | Written \<Rightarrow>
               (if block_size * 100 = 0
                then Some (Raised ZeroDivisionError, written + block_size, file @ [chunk], Suc k)
                else wipe_write_loop src mode block_size rs (Suc k) (written + block_size)
                       (file @ [chunk]))))"

text \<open>
  The \<^verbatim>\<open>finally\<close> block of a pass: remove the temporary file if it exists and, when
  that worked, take it off the registry; an \<open>OSError\<close> of the removal is swallowed.
\<close>

definition wipe_finally :: "wipe_env \<Rightarrow> string \<Rightarrow> proc_state \<Rightarrow> proc_state" where
  "wipe_finally env fname st =
     (if disk st fname \<noteq> None
      then (case os_remove env fname st of
              (None, st') \<Rightarrow>
                (if fname \<in> set (temp_files st')
                 then st'\<lparr>temp_files := remove1 fname (temp_files st')\<rparr> else st')
            | (Some e, st') \<Rightarrow> st')
      else st)"

text \<open>
  What follows the write loop of a pass. An \<open>OSError\<close> is caught: it is printed unless
  its errno is \<open>ENOSPC\<close> or \<open>EFBIG\<close>, and in both cases the pass goes on to its
  \<^verbatim>\<open>finally\<close> block and to the line "Pass complete". Any other exception, and the
  \<open>SystemExit\<close> of the signal handler, leave the pass through the \<^verbatim>\<open>finally\<close> block.
\<close>

definition wipe_pass_end ::
  "wipe_env \<Rightarrow> string \<Rightarrow> bool \<Rightarrow> nat \<Rightarrow> loop_exit \<Rightarrow> proc_state \<Rightarrow> pyexc option \<times> proc_state" where
  "wipe_pass_end env fname verify p ex st =
     (case ex of
        Raised (OSError e) \<Rightarrow>
          (let st1 = (if e \<noteq> ENOSPC \<and> e \<noteq> EFBIG then say (ErrorMsg e) st else st);
               st2 = wipe_finally env fname st1;
               st3 = say (PassComplete (int p + 1)) st2;
               st4 = (if verify then say VerificationComplete st3 else st3)
           in (None, st4))
      | Raised e \<Rightarrow> (Some e, wipe_finally env fname st)
      | Interrupted \<Rightarrow>
          (case signal_handler env st of (e, st') \<Rightarrow> (Some e, wipe_finally env fname st')))"

definition wipe_pass ::
  "wipe_env \<Rightarrow> string \<Rightarrow> string \<Rightarrow> int \<Rightarrow> bool \<Rightarrow> nat \<Rightarrow> proc_state
     \<Rightarrow> (pyexc option \<times> proc_state) option" where
  "wipe_pass env fname pattern block_size verify p st =
     (let mode = wipe_mode pattern (int p);
          st1 = say (PassStart (int p + 1) mode) st;
          st2 = st1\<lparr>container := True, bar_disabled := False\<rparr>
      in case open_error env p of
           Some e \<Rightarrow> Some (wipe_pass_end env fname verify p (Raised (OSError e)) st2)
         | None \<Rightarrow>
             (case wipe_write_loop (rnd env p) mode block_size (writes env p) 0 0 [] of
                None \<Rightarrow> None
              | Some (ex, written, file, calls) \<Rightarrow>
                  Some (wipe_pass_end env fname verify p ex
                          (st2\<lparr>disk := (disk st2)(fname \<mapsto> file),
                               write_calls := write_calls st2 + calls\<rparr>))))"

text \<open>\<^verbatim>\<open>for p in range(passes)\<close>: an exception that leaves a pass leaves the loop.\<close>

fun wipe_passes ::
  "wipe_env \<Rightarrow> string \<Rightarrow> string \<Rightarrow> int \<Rightarrow> bool \<Rightarrow> nat list \<Rightarrow> proc_state
     \<Rightarrow> (pyexc option \<times> proc_state) option" where
  "wipe_passes env fname pattern block_size verify [] st = Some (None, st)"
| "wipe_passes env fname pattern block_size verify (p # ps) st =
     (case wipe_pass env fname pattern block_size verify p st of
        None \<Rightarrow> None
      | Some (Some e, st') \<Rightarrow> Some (Some e, st')
      | Some (None, st') \<Rightarrow> wipe_passes env fname pattern block_size verify ps st')"

text \<open>
  \<^verbatim>\<open>wipe_free_space\<close> once the target \<^verbatim>\<open>root\<close> (here \<open>root_path\<close>) and its free space are known (the
  drive selection and the offer to format the device come before and are not part of
  the model). A zero free space is queried a second time; nothing else depends on it.
  The registry starts with the one temporary file; the status box is printed; a refused
  confirmation leaves with \<^verbatim>\<open>sys.exit(0)\<close>, where the \<^verbatim>\<open>atexit\<close> hook cleans up;
  otherwise the passes run and the outer \<^verbatim>\<open>finally\<close> cleans up. The result is the
  exception that leaves the function, if any, and the final state.
\<close>

definition wipe_free_space ::
  "wipe_env \<Rightarrow> string \<Rightarrow> int \<Rightarrow> int \<Rightarrow> int \<Rightarrow> bool \<Rightarrow> string \<Rightarrow> bool \<Rightarrow> proc_state
     \<Rightarrow> (pyexc option \<times> proc_state) option" where
  "wipe_free_space env root_path free_space0 passes block_size verify pattern no_confirm st0 =
     (let free_space = (if free_space0 = 0 then free_space_again env else free_space0);
          fname = path_join root_path ''.Securewipe_free_space.tmp'';
          st1 = st0\<lparr>temp_files := [fname], container := False\<rparr>;
          st2 = say (StatusBox free_space) st1
      in if \<not> no_confirm \<and> \<not> confirm env
         then Some (Some (SystemExit 0), cleanup_temp_files env (say OperationAborted st2))
         else (case wipe_passes env fname pattern block_size verify [0..<nat passes] st2 of
                 None \<Rightarrow> None
               | Some (None, st3) \<Rightarrow> Some (None, cleanup_temp_files env (say WipingComplete st3))
               | Some (Some e, st3) \<Rightarrow> Some (Some e, cleanup_temp_files env st3)))"

text \<open>
  The exit code of the process: 0 when the function returns, the code of a
  \<open>SystemExit\<close>, 1 for an exception nobody catches.
\<close>

fun exit_code :: "pyexc option \<Rightarrow> int" where
  "exit_code None = 0"
| "exit_code (Some (SystemExit c)) = c"
| "exit_code (Some e) = 1"

subsection \<open>The free-space wipe inside \<^verbatim>\<open>format_disk\<close>\<close>

text \<open>
  The write loop of \<^verbatim>\<open>format_disk\<close> wraps the write in a \<^verbatim>\<open>try\<close> of its own:
  an \<open>OSError\<close> breaks out of the loop (\<open>Broke\<close> with its errno), any other exception
  leaves it. The chunk is built outside that \<^verbatim>\<open>try\<close>.
\<close>

datatype format_exit = Broke int | Left loop_exit

fun format_write_loop ::
  "(nat \<Rightarrow> nat \<Rightarrow> byte) \<Rightarrow> string \<Rightarrow> int \<Rightarrow> write_result list \<Rightarrow> nat \<Rightarrow> int \<Rightarrow> byte list list
     \<Rightarrow> (format_exit \<times> int \<times> byte list list \<times> nat) option" where
  "format_write_loop src mode block_size [] k written file =
     (case format_chunk (src k) mode block_size of
        Inl e \<Rightarrow> Some (Left (Raised e), written, file, k)
      | Inr chunk \<Rightarrow> None)"
| "format_write_loop src mode block_size (r # rs) k written file =
     (case format_chunk (src k) mode block_size of
        Inl e \<Rightarrow> Some (Left (Raised e), written, file, k)
      | Inr chunk \<Rightarrow>
          (case r of
             WriteError e \<Rightarrow> Some (Broke e, written, file, Suc k)
           | Interrupt \<Rightarrow> Some (Left Interrupted, written, file, Suc k)
           | Written \<Rightarrow>
               (if block_size * 100 = 0
                then Some (Left (Raised ZeroDivisionError), written + block_size,
                           file @ [chunk], Suc k)
                else format_write_loop src mode block_size rs (Suc k) (written + block_size)
                       (file @ [chunk]))))"

text \<open>
  After the loop and its \<^verbatim>\<open>finally\<close> (which drops the progress bar): the temporary
  file of the pass is removed and taken off the registry; a failing removal is reported.
\<close>

definition format_remove :: "wipe_env \<Rightarrow> string \<Rightarrow> proc_state \<Rightarrow> proc_state" where
  "format_remove env fname st =
     (if disk st fname \<noteq> None
      then (case os_remove env fname st of
              (None, st') \<Rightarrow>
                (if fname \<in> set (temp_files st')
                 then st'\<lparr>temp_files := remove1 fname (temp_files st')\<rparr> else st')
            | (Some e, st') \<Rightarrow> say (CouldNotRemove fname) st')
      else st)"

text \<open>
  How a pass of \<^verbatim>\<open>format_disk\<close> ends. A break with \<open>ENOSPC\<close> is silent, a break
  with another errno prints it; an exception that is an \<^verbatim>\<open>Exception\<close> is printed by
  the outer handler of the pass; in all three cases the pass removes its file and prints
  "Pass complete". The \<open>SystemExit\<close> of the signal handler leaves the pass after the
  \<^verbatim>\<open>finally\<close> block.
\<close>

definition format_pass_end ::
  "wipe_env \<Rightarrow> string \<Rightarrow> nat \<Rightarrow> format_exit \<Rightarrow> proc_state \<Rightarrow> pyexc option \<times> proc_state" where
  "format_pass_end env fname p ex st =
     (let finish = (\<lambda>s. say (PassComplete (int p + 1)) (format_remove env fname (s\<lparr>container := False\<rparr>)))
      in case ex of
           Broke e \<Rightarrow> (None, finish (if e = ENOSPC then st else say (ErrorMsg e) st))
         | Left (Raised e) \<Rightarrow>
             (if is_Exception e then (None, finish (say (WipingError e) st))
              else (Some e, st\<lparr>container := False\<rparr>))
         | Left Interrupted \<Rightarrow>
             (case signal_handler env st of (e, st') \<Rightarrow> (Some e, st'\<lparr>container := False\<rparr>)))"

definition format_pass ::
  "wipe_env \<Rightarrow> string \<Rightarrow> string \<Rightarrow> int \<Rightarrow> nat \<Rightarrow> proc_state
     \<Rightarrow> (pyexc option \<times> proc_state) option" where
  "format_pass env mount_point pattern block_size p st =
     (let mode = format_mode pattern (int p);
          st1 = say (PassStart (int p + 1) mode) st;
          st2 = st1\<lparr>container := True, bar_disabled := False\<rparr>;
          fname = path_join mount_point (''.Securewipe_Complete_disk_'' @ str_nat (p + 1) @ ''.tmp'');
          st3 = (if fname \<notin> set (temp_files st2)
                 then st2\<lparr>temp_files := temp_files st2 @ [fname]\<rparr> else st2);
          st4 = (if disk st3 fname \<noteq> None then snd (os_remove env fname st3) else st3)
      in case open_error env p of
           Some e \<Rightarrow> Some (format_pass_end env fname p (Left (Raised (OSError e))) st4)
         | None \<Rightarrow>
             (case format_write_loop (rnd env p) mode block_size (writes env p) 0 0 [] of
                None \<Rightarrow> None
              | Some (ex, written, file, calls) \<Rightarrow>
                  Some (format_pass_end env fname p ex
                          (st4\<lparr>disk := (disk st4)(fname \<mapsto> file),
                               write_calls := write_calls st4 + calls\<rparr>))))"

fun format_passes ::
  "wipe_env \<Rightarrow> string \<Rightarrow> string \<Rightarrow> int \<Rightarrow> nat list \<Rightarrow> proc_state
     \<Rightarrow> (pyexc option \<times> proc_state) option" where
  "format_passes env mount_point pattern block_size [] st = Some (None, st)"
| "format_passes env mount_point pattern block_size (p # ps) st =
     (case format_pass env mount_point pattern block_size p st of
        None \<Rightarrow> None
      | Some (Some e, st') \<Rightarrow> Some (Some e, st')
      | Some (None, st') \<Rightarrow> format_passes env mount_point pattern block_size ps st')"

text \<open>
  Step 2 of \<^verbatim>\<open>format_disk\<close> on a resolved mount point: the registry starts with
  \<^verbatim>\<open>.Securewipe_Complete_disk.tmp\<close>, the block size is fixed to 1 MiB, and after the
  passes the registry is swept. A \<open>SystemExit\<close> leaves the step as it is.
\<close>

definition format_wipe ::
  "wipe_env \<Rightarrow> string \<Rightarrow> int \<Rightarrow> int \<Rightarrow> string \<Rightarrow> proc_state
     \<Rightarrow> (pyexc option \<times> proc_state) option" where
  "format_wipe env mount_point free_space passes pattern st0 =
     (let fname = path_join mount_point ''.Securewipe_Complete_disk.tmp'';
          st1 = st0\<lparr>temp_files := [fname], container := False\<rparr>;
          st2 = say (StatusBox free_space) st1
      in case format_passes env mount_point pattern 1048576 [0..<nat passes] st2 of
           None \<Rightarrow> None
         | Some (None, st3) \<Rightarrow> Some (None, cleanup_temp_files env (say WipingComplete st3))
         | Some (Some e, st3) \<Rightarrow> Some (Some e, st3))"

text \<open>The state of a process that starts on a volume holding the files \<open>d\<close>.\<close>

definition start :: "(string \<rightharpoonup> byte list list) \<Rightarrow> proc_state" where
  "start d = \<lparr>disk = d, temp_files = [], container = False, bar_disabled = False, out = [],
              removes = 0, write_calls = 0, trace = []\<rparr>"

text \<open>What can be seen of a finished run: the exit code and the lines printed.\<close>

definition seen :: "(pyexc option \<times> proc_state) option \<Rightarrow> (int \<times> msg list) option" where
  "seen r = map_option (\<lambda>(e, st). (exit_code e, out st)) r"

subsection \<open>Characters and strings of Python\<close>

text \<open>
  A character of the model is a code point below 256. \<^verbatim>\<open>str.isspace\<close>, which
  \<^verbatim>\<open>strip()\<close> and the pattern \<^verbatim>\<open>\s\<close> follow, holds of these code points.
\<close>

definition is_space :: "char \<Rightarrow> bool" where
  "is_space c = ((of_char c :: nat) \<in> {9, 10, 11, 12, 13, 28, 29, 30, 31, 32, 133, 160})"

definition strip :: "string \<Rightarrow> string" where
  "strip s = rev (dropWhile is_space (rev (dropWhile is_space s)))"

definition is_upper_ascii :: "char \<Rightarrow> bool" where
  "is_upper_ascii c = (65 \<le> (of_char c :: nat) \<and> (of_char c :: nat) \<le> 90)"

definition is_lower_ascii :: "char \<Rightarrow> bool" where
  "is_lower_ascii c = (97 \<le> (of_char c :: nat) \<and> (of_char c :: nat) \<le> 122)"

text \<open>
  \<^verbatim>\<open>str.lower\<close> and \<^verbatim>\<open>str.upper\<close> on ASCII text (the program applies them to a
  file system name out of a fixed list and to a run of ASCII letters).
\<close>

definition lower :: "string \<Rightarrow> string" where
  "lower s = map (\<lambda>c. if is_upper_ascii c then char_of (of_char c + (32::nat)) else c) s"

definition upper :: "string \<Rightarrow> string" where
  "upper s = map (\<lambda>c. if is_lower_ascii c then char_of (of_char c - (32::nat)) else c) s"

fun starts_with :: "string \<Rightarrow> string \<Rightarrow> bool" where
  "starts_with [] ys = True"
| "starts_with (x # xs) [] = False"
| "starts_with (x # xs) (y # ys) = (x = y \<and> starts_with xs ys)"

text \<open>\<^verbatim>\<open>needle in hay\<close> on strings.\<close>

fun py_in :: "string \<Rightarrow> string \<Rightarrow> bool" where
  "py_in needle [] = (needle = [])"
| "py_in needle (h # t) = (starts_with needle (h # t) \<or> py_in needle t)"

subsection \<open>The full-disk pipeline \<^verbatim>\<open>format_disk\<close>\<close>

datatype platform = Darwin | Linux | Windows | OtherSystem

text \<open>
  What a \<^verbatim>\<open>subprocess.run\<close> gives: a result, or an exception (the tool is missing,
  say), which every stage function catches with \<^verbatim>\<open>except Exception\<close>.
\<close>

datatype 'a attempt = Result 'a | Throws

record cmd_result =
  returncode :: int
  stdout :: string

text \<open>
  The environment of \<^verbatim>\<open>format_disk\<close>: the platform, whether the disk path exists,
  the results of the commands of the hidden-area stage, the errno that ends the raw
  overwrite of the device (\<open>None\<close>: it never ends), the text typed at the confirmation
  prompt, the status of the formatting command of each of the two format steps, the
  mount point found after formatting and its free space, and the environment of the wipe.
\<close>

record format_env =
  system :: platform
  disk_exists :: bool
  which_hdparm :: "int attempt"
  hdparm_N :: "cmd_result attempt"
  hdparm_I :: "cmd_result attempt"
  diskutil_info :: "cmd_result attempt"
  hdparm_native_max :: "cmd_result attempt"
  hdparm_dco_restore :: "cmd_result attempt"
  raw_write_error :: "int option"
  response :: string
  format_cmd :: "stage \<Rightarrow> int attempt"
  found_mount_point :: "string option"
  mount_free_space :: int
  wipe :: wipe_env

definition invoke :: "stage \<Rightarrow> proc_state \<Rightarrow> proc_state" where
  "invoke s st = st\<lparr>trace := trace st @ [s]\<rparr>"

definition says :: "msg list \<Rightarrow> proc_state \<Rightarrow> proc_state" where
  "says ms st = st\<lparr>out := out st @ ms\<rparr>"

definition check_warning :: msg where
  "check_warning = Note ''Warning: Could not check for HPA/DCO''"

definition removal_error :: msg where
  "removal_error = Note ''Error attempting to remove HPA/DCO''"

text \<open>
  \<^verbatim>\<open>check_hpa_dco\<close>: whether hidden areas were found, and the messages. An exception
  of any command makes the answer \<open>False\<close>, with a warning.
\<close>

definition check_hpa_dco :: "format_env \<Rightarrow> bool \<times> msg list" where
  "check_hpa_dco env =
     (case system env of
        Linux \<Rightarrow>
          (case which_hdparm env of
             Throws \<Rightarrow> (False, [check_warning])
           | Result rc \<Rightarrow>
               if rc = 0 then
                 (case hdparm_N env of
                    Throws \<Rightarrow> (False, [check_warning])
                  | Result r1 \<Rightarrow>
                      (let hpa = (returncode r1 = 0 \<and> py_in ''HPA'' (stdout r1));
                           m1 = (if hpa then [Note ''HPA detected''] else [])
                       in case hdparm_I env of
                            Throws \<Rightarrow> (False, m1 @ [check_warning])
                          | Result r2 \<Rightarrow>
                              (let dco = (returncode r2 = 0 \<and> py_in ''DCO is'' (stdout r2)
                                            \<and> \<not> py_in ''not'' (stdout r2))
                               in (hpa \<or> dco, m1 @ (if dco then [Note ''DCO detected''] else [])))))
               else (False, []))
      | Darwin \<Rightarrow>
          (case diskutil_info env of
             Throws \<Rightarrow> (False, [check_warning])
           | Result r \<Rightarrow>
               (let hidden = (returncode r = 0 \<and> py_in ''Hidden'' (stdout r))
                in (hidden, if hidden then [Note ''Hidden areas detected''] else [])))
      | _ \<Rightarrow> (False, []))"

text \<open>\<^verbatim>\<open>remove_hpa_dco\<close>: success when one of the two removals worked.\<close>

definition remove_hpa_dco :: "format_env \<Rightarrow> bool \<times> msg list" where
  "remove_hpa_dco env =
     (case system env of
        Linux \<Rightarrow>
          (case which_hdparm env of
             Throws \<Rightarrow> (False, [removal_error])
           | Result rc \<Rightarrow>
               if rc = 0 then
                 (case hdparm_native_max env of
                    Throws \<Rightarrow> (False, [removal_error])
                  | Result r1 \<Rightarrow>
                      (let s1 = (returncode r1 = 0);
                           m1 = [Note (if s1 then ''Successfully removed HPA'' else ''Failed to remove HPA'')]
                       in case hdparm_dco_restore env of
                            Throws \<Rightarrow> (False, m1 @ [removal_error])
                          | Result r2 \<Rightarrow>
                              (let s2 = (returncode r2 = 0)
                               in (s1 \<or> s2,
                                   m1 @ [Note (if s2 then ''Successfully removed DCO''
                                               else ''Failed to remove DCO'')]))))
               else (False, []))
      | Darwin \<Rightarrow>
          (False, [Note ''HPA/DCO removal not directly supported on macOS'',
                   Note ''Consider using Linux-based tools for complete disk sanitization''])
      | _ \<Rightarrow> (False, []))"

text \<open>
  The hidden-area stage of \<^verbatim>\<open>format_disk\<close>: when hidden areas were found they are
  removed, and after a successful removal the device is overwritten through
  \<^verbatim>\<open>write_to_raw_disk\<close>, a loop that only an \<open>OSError\<close> ends (so it may not return):
  \<open>ENOSPC\<close> is expected, any other error is printed as a warning there. A failed
  removal prints a warning, and the function goes on in every case.
\<close>

definition hidden_area_removal :: "format_env \<Rightarrow> bool \<Rightarrow> proc_state \<Rightarrow> proc_state option" where
  "hidden_area_removal env has_hidden st =
     (if has_hidden then
        (case remove_hpa_dco env of
           (success, msgs) \<Rightarrow>
             (let st1 = says msgs (invoke HiddenAreaRemoval st)
              in if success then
                   (case raw_write_error env of
                      None \<Rightarrow> None
                    | Some e \<Rightarrow>
                        Some ((if e = ENOSPC then (\<lambda>s. s)
                               else say (Note ''Warning: Error while writing to previously hidden areas''))
                              (invoke RawOverwrite st1)))
                 else Some (say (Note ''Warning: Could not fully remove hidden areas'') st1)))
      else Some st)"

text \<open>
  \<^verbatim>\<open>format_disk\<close> up to the confirmation: cache flush, remapped sectors, the
  hidden-area stage, enhanced secure erase, SMART clearing and a second cache flush.
  The four other stage functions catch every exception and their results are not
  looked at, so only their invocation is recorded.
\<close>

definition prepare_disk :: "format_env \<Rightarrow> proc_state \<Rightarrow> proc_state option" where
  "prepare_disk env st0 =
     (let st1 = invoke RemappedSectors (invoke CacheFlush st0)
      in case check_hpa_dco env of
           (has_hidden, msgs) \<Rightarrow>
             (case hidden_area_removal env has_hidden (says msgs (invoke HiddenAreaCheck st1)) of
                None \<Rightarrow> None
              | Some st3 \<Rightarrow> Some (invoke CacheFlush (invoke SmartClear (invoke EnhancedErase st3)))))"

text \<open>The file systems the Linux branch of \<^verbatim>\<open>perform_format\<close> knows.\<close>

definition linux_filesystems :: "string list" where
  "linux_filesystems = [''ext4'', ''ext3'', ''ext2'', ''fat32'', ''vfat'', ''exfat'', ''ntfs'']"

text \<open>
  Whether the formatting command of a step fails: it raises, or returns a non-zero
  status.
\<close>

definition format_fails :: "format_env \<Rightarrow> stage \<Rightarrow> bool" where
  "format_fails env step = (case format_cmd env step of Throws \<Rightarrow> True | Result rc \<Rightarrow> rc \<noteq> 0)"

text \<open>
  \<^verbatim>\<open>perform_format\<close> for the step \<open>Format\<close> or \<open>Reformat\<close>: every failure (an
  unsupported platform or, on Linux, file system; a command that raises or returns a
  non-zero status) ends in \<^verbatim>\<open>sys.exit(1)\<close>.
\<close>

definition perform_format ::
  "format_env \<Rightarrow> string \<Rightarrow> stage \<Rightarrow> proc_state \<Rightarrow> pyexc option \<times> proc_state" where
  "perform_format env filesystem step st =
     (let st1 = invoke step st
      in if system env = OtherSystem then (Some (SystemExit 1), say FormatError st1)
         else if system env = Linux \<and> lower filesystem \<notin> set linux_filesystems
         then (Some (SystemExit 1), say FormatError st1)
         else if format_fails env step then (Some (SystemExit 1), say FormatError st1)
         else (None, st1))"

text \<open>
  The three steps after the confirmation: format, wipe the free space of the mounted
  volume (skipped with a warning when no mount point is found), format again. A
  \<open>SystemExit\<close> is not caught by the \<^verbatim>\<open>except Exception\<close> around the steps; when it
  comes from the signal handler of the wipe, the \<^verbatim>\<open>atexit\<close> hook sweeps the registry
  on the way out.
\<close>

definition erase_steps ::
  "format_env \<Rightarrow> string \<Rightarrow> int \<Rightarrow> string \<Rightarrow> proc_state \<Rightarrow> (pyexc option \<times> proc_state) option" where
  "erase_steps env filesystem passes pattern st =
     (case perform_format env filesystem Format st of
        (Some e, st1) \<Rightarrow> Some (Some e, st1)
      | (None, st1) \<Rightarrow>
          (let st2 = invoke MountLookup st1;
               wiped = (case found_mount_point env of
                          None \<Rightarrow> Some (None, say SkippingWipe st2)
                        | Some m \<Rightarrow>
                            if m = [] then Some (None, say SkippingWipe st2)
                            else format_wipe (wipe env) m (mount_free_space env) passes pattern
                                   (invoke FreeSpaceWipe st2))
           in case wiped of
                None \<Rightarrow> None
              | Some (Some e, st3) \<Rightarrow> Some (Some e, cleanup_temp_files (wipe env) st3)
              | Some (None, st3) \<Rightarrow>
                  (case perform_format env filesystem Reformat st3 of
                     (Some e, st4) \<Rightarrow> Some (Some e, st4)
                   | (None, st4) \<Rightarrow> Some (None, say EraseComplete st4))))"

text \<open>
  \<^verbatim>\<open>format_disk\<close>: the disk path must exist (except on Windows); the preparation
  runs; unless \<open>no_confirm\<close> is set, the text typed must be exactly
  \<^verbatim>\<open>I UNDERSTAND\<close> or the function leaves with \<^verbatim>\<open>sys.exit(0)\<close>; then the three
  steps run.
\<close>

definition format_disk ::
  "format_env \<Rightarrow> string \<Rightarrow> bool \<Rightarrow> int \<Rightarrow> string \<Rightarrow> proc_state
     \<Rightarrow> (pyexc option \<times> proc_state) option" where
  "format_disk env filesystem no_confirm passes pattern st0 =
     (if system env \<noteq> Windows \<and> \<not> disk_exists env
      then Some (Some (SystemExit 1), say (Note ''Error: Disk not found'') st0)
      else (case prepare_disk env st0 of
              None \<Rightarrow> None
            | Some st4 \<Rightarrow>
                if \<not> no_confirm \<and> strip (response env) \<noteq> ''I UNDERSTAND''
                then Some (Some (SystemExit 0), say OperationAborted st4)
                else erase_steps env filesystem passes pattern st4))"

text \<open>What can be seen of the pipeline: the exit code and the stages invoked, in order.\<close>

definition stages_run :: "(pyexc option \<times> proc_state) option \<Rightarrow> (int \<times> stage list) option" where
  "stages_run r = map_option (\<lambda>(e, st). (exit_code e, trace st)) r"



text \<open>The platform and file system are ones \<^verbatim>\<open>perform_format\<close> has a command for.\<close>

definition supported :: "format_env \<Rightarrow> string \<Rightarrow> bool" where
  "supported env filesystem =
     (system env \<noteq> OtherSystem \<and> \<not> (system env = Linux \<and> lower filesystem \<notin> set linux_filesystems))"



subsection \<open>Size strings: \<^verbatim>\<open>format_size\<close> and \<^verbatim>\<open>parse_size\<close>\<close>

text \<open>
  Python's floats are modelled by exact rationals: the rounding error and the overflow
  of IEEE doubles are outside the model.
\<close>

definition is_digit :: "char \<Rightarrow> bool" where
  "is_digit c = (48 \<le> (of_char c :: nat) \<and> (of_char c :: nat) \<le> 57)"

definition is_alpha :: "char \<Rightarrow> bool" where
  "is_alpha c = (is_upper_ascii c \<or> is_lower_ascii c)"

text \<open>The class \<^verbatim>\<open>[0-9,.]\<close> of the pattern in \<^verbatim>\<open>parse_size\<close>.\<close>

definition is_numch :: "char \<Rightarrow> bool" where
  "is_numch c = (is_digit c \<or> c = CHR '','' \<or> c = CHR ''.'')"

text \<open>The number a run of decimal digits denotes.\<close>

definition nat_of_digits :: "string \<Rightarrow> nat" where
  "nat_of_digits s = foldl (\<lambda>a c. 10 * a + (of_char c - 48)) 0 s"

text \<open>Rounding to the nearest integer, ties to the even one, of a non-negative rational.\<close>

definition round_half_even :: "rat \<Rightarrow> nat" where
  "round_half_even q =
     (let f = nat \<lfloor>q\<rfloor>; d = q - of_nat f
      in if d < 1 / 2 then f else if 1 / 2 < d then f + 1 else if even f then f else f + 1)"

text \<open>
  \<^verbatim>\<open>f"{x:.2f}"\<close>: the sign, the integer part, a point and two decimals of the value
  rounded to hundredths.
\<close>

definition fmt2 :: "rat \<Rightarrow> string" where
  "fmt2 x =
     (let h = round_half_even (\<bar>x\<bar> * 100)
      in (if x < 0 then ''-'' else '''') @ str_nat (h div 100) @ ''.''
         @ [digit_char (h mod 100 div 10), digit_char (h mod 10)])"

text \<open>
  The loop of \<^verbatim>\<open>format_size\<close> over the units: the value is divided by 1024 until
  it is below 1024 or the units are used up; the result is the scaled value and its unit.
\<close>

fun scale :: "rat \<Rightarrow> string list \<Rightarrow> rat \<times> string" where
  "scale num [] = (num, ''PB'')"
| "scale num (unit # units) = (if num < 1024 then (num, unit) else scale (num / 1024) units)"

definition size_units :: "string list" where
  "size_units = [''B'', ''KB'', ''MB'', ''GB'', ''TB'']"

definition format_size :: "int option \<Rightarrow> string" where
  "format_size num =
     (case num of
        None \<Rightarrow> ''Unknown''
      | Some n \<Rightarrow>
          if n = 0 then ''Unknown''
          else (case scale (of_int n) size_units of (v, unit) \<Rightarrow> fmt2 v @ unit))"

text \<open>
  \<^verbatim>\<open>re.match(r'([0-9,.]+)\s*([A-Za-z]+)', s)\<close>: the two groups, if the string
  matches. The three character classes are disjoint, so the greedy match is the only
  candidate: the longest run of \<^verbatim>\<open>[0-9,.]\<close> at the start, any white space, the longest
  run of letters; both runs must be non-empty. What follows the letters is ignored.
\<close>

definition match_size :: "string \<Rightarrow> (string \<times> string) option" where
  "match_size s =
     (let num = takeWhile is_numch s;
          unit = takeWhile is_alpha (dropWhile is_space (dropWhile is_numch s))
      in if num \<noteq> [] \<and> unit \<noteq> [] then Some (num, unit) else None)"

text \<open>
  \<^verbatim>\<open>float(s)\<close> on a string of digits and points (what is left of the first group
  once the commas are gone): digits with at most one point and at least one digit;
  anything else raises \<open>ValueError\<close>.
\<close>

definition py_float :: "string \<Rightarrow> pyexc + rat" where
  "py_float s =
     (let ip = takeWhile is_digit s; r = dropWhile is_digit s
      in case r of
           [] \<Rightarrow> if ip = [] then Inl ValueError else Inr (of_nat (nat_of_digits ip))
         | c # fp \<Rightarrow>
             if c = CHR ''.'' \<and> list_all is_digit fp \<and> (ip \<noteq> [] \<or> fp \<noteq> [])
             then Inr (of_nat (nat_of_digits ip) + of_nat (nat_of_digits fp) / 10 ^ length fp)
             else Inl ValueError)"

text \<open>
  \<^verbatim>\<open>int(s)\<close> on a string: white space around, an optional sign, digits that single
  underscores may separate (no bound on the number of digits is modelled); \<open>None\<close>
  stands for the \<open>ValueError\<close>.
\<close>

fun digits_rest :: "string \<Rightarrow> bool" where
  "digits_rest [] = True"
| "digits_rest (c # cs) =
     (if is_digit c then digits_rest cs
      else if c = CHR ''_'' then (case cs of [] \<Rightarrow> False | d # ds \<Rightarrow> is_digit d \<and> digits_rest ds)
      else False)"

definition py_int :: "string \<Rightarrow> int option" where
  "py_int s =
     (let t = strip s;
          neg = (t \<noteq> [] \<and> hd t = CHR ''-'');
          body = (if t \<noteq> [] \<and> (hd t = CHR ''-'' \<or> hd t = CHR ''+'') then tl t else t)
      in case body of
           [] \<Rightarrow> None
         | c # cs \<Rightarrow>
             if is_digit c \<and> digits_rest cs
             then Some ((if neg then - 1 else 1) * int (nat_of_digits (filter (\<lambda>x. x \<noteq> CHR ''_'') body)))
             else None)"

text \<open>\<^verbatim>\<open>int(x)\<close> of a float: truncation towards zero.\<close>

definition py_trunc :: "rat \<Rightarrow> int" where
  "py_trunc q = (if 0 \<le> q then \<lfloor>q\<rfloor> else \<lceil>q\<rceil>)"

text \<open>The factor of a unit in the chain of comparisons of \<^verbatim>\<open>parse_size\<close>.\<close>

definition unit_bytes :: "string \<Rightarrow> rat option" where
  "unit_bytes unit =
     (if unit = ''B'' then Some 1
      else if unit = ''KB'' \<or> unit = ''K'' then Some 1024
      else if unit = ''MB'' \<or> unit = ''M'' then Some (1024 ^ 2)
      else if unit = ''GB'' \<or> unit = ''G'' then Some (1024 ^ 3)
      else if unit = ''TB'' \<or> unit = ''T'' then Some (1024 ^ 4)
      else if unit = ''PB'' \<or> unit = ''P'' then Some (1024 ^ 5)
      else None)"

text \<open>
  \<^verbatim>\<open>parse_size\<close>. The conversion \<^verbatim>\<open>int(size_str)\<close> of a string that does not
  match sits in a \<^verbatim>\<open>try\<close> that turns every failure into 0; the conversion
  \<^verbatim>\<open>float(value)\<close> of the first group does not.
\<close>

definition parse_size :: "string option \<Rightarrow> pyexc + int" where
  "parse_size size_str =
     (case size_str of
        None \<Rightarrow> Inr 0
      | Some s \<Rightarrow>
          if s = [] \<or> s = ''Unknown'' then Inr 0
          else (case match_size s of
                  None \<Rightarrow> (case py_int s of Some i \<Rightarrow> Inr i | None \<Rightarrow> Inr 0)
                | Some (g1, g2) \<Rightarrow>
                    (case py_float (filter (\<lambda>c. c \<noteq> CHR '','') g1) of
                       Inl e \<Rightarrow> Inl e
                     | Inr v \<Rightarrow>
                         (case unit_bytes (upper g2) of
                            Some f \<Rightarrow> Inr (py_trunc (v * f))
                          | None \<Rightarrow> Inr 0))))"



subsection \<open>The time estimate\<close>

text \<open>\<^verbatim>\<open>estimate_write_speed\<close>: the heuristic bytes per second of the platform.\<close>

definition estimate_write_speed :: "platform \<Rightarrow> int" where
  "estimate_write_speed sys =
     (case sys of
        Darwin \<Rightarrow> 200 * 1024 * 1024
      | Linux \<Rightarrow> 100 * 1024 * 1024
      | Windows \<Rightarrow> 80 * 1024 * 1024
      | OtherSystem \<Rightarrow> 50 * 1024 * 1024)"

text \<open>
  What the call \<^verbatim>\<open>benchmark_write_speed(path)\<close> does. The function is commented
  out in the source, so the call raises (a \<open>NameError\<close>, which
  \<^verbatim>\<open>estimate_operation_time\<close> catches); the model takes the outcome as a parameter
  and so also covers a benchmark that returns \<^verbatim>\<open>None\<close> or a speed.
\<close>

datatype benchmark_outcome = BenchRaises | BenchReturns "rat option"

text \<open>
  The environment of an estimate: the platform, whether the path is writable, the
  benchmark, the clock \<^verbatim>\<open>time.time()\<close> and the rendering of a point in time by
  \<^verbatim>\<open>time.strftime\<close> and \<^verbatim>\<open>time.localtime\<close>.
\<close>

record est_env =
  est_system :: platform
  path_writable :: bool
  benchmark :: benchmark_outcome
  clock :: rat
  render :: "rat \<Rightarrow> string"

text \<open>The dictionary returned (without the duration in words).\<close>

record time_estimate =
  estimated_seconds :: rat
  estimated_speed :: rat
  completion_time :: string
  est_data_size :: int
  est_passes :: int

definition estimate_operation_time ::
  "est_env \<Rightarrow> int \<Rightarrow> int \<Rightarrow> bool \<Rightarrow> string option \<Rightarrow> time_estimate" where
  "estimate_operation_time env data_size passes include_benchmark path =
     (let heuristic = of_int (estimate_write_speed (est_system env));
          speed = (if include_benchmark \<and> path \<noteq> None \<and> path \<noteq> Some [] \<and> path_writable env
                   then (case benchmark env of
                           BenchReturns (Some b) \<Rightarrow> if b \<noteq> 0 then b * (8 / 10) else heuristic
                         | _ \<Rightarrow> heuristic)
                   else heuristic);
          base_time = of_int data_size / speed;
          pass_overhead = 2;
          total_time = base_time * of_int passes + pass_overhead * of_int passes;
          fs_overhead = min 30 (total_time * (1 / 10));
          total = total_time + fs_overhead
      in \<lparr>estimated_seconds = total, estimated_speed = speed,
          completion_time = render env (clock env + total),
          est_data_size = data_size, est_passes = passes\<rparr>)"

text \<open>No benchmark measurement is available to an estimate.\<close>

definition no_measurement :: "est_env \<Rightarrow> bool \<Rightarrow> string option \<Rightarrow> bool" where
  "no_measurement env include_benchmark path =
     (\<not> (include_benchmark \<and> path \<noteq> None \<and> path \<noteq> Some [] \<and> path_writable env
         \<and> (case benchmark env of BenchReturns (Some b) \<Rightarrow> b \<noteq> 0 | _ \<Rightarrow> False)))"

subsection \<open>Concrete environments\<close>

text \<open>
  An environment in which every pass meets the write results \<open>ws\<close>, every file can be
  opened and removed, the confirmation is given and the random device delivers zeros.
\<close>

definition quiet_env :: "write_result list \<Rightarrow> wipe_env" where
  "quiet_env ws = \<lparr>free_space_again = 0, confirm = True, open_error = (\<lambda>p. None),
                   writes = (\<lambda>p. ws), remove_error = (\<lambda>k f. None), rnd = (\<lambda>p k i. 0)\<rparr>"



text \<open>
  A Linux machine on which \<^verbatim>\<open>hdparm\<close> reports a host protected area and both
  removal commands fail; the confirmation is typed, both format commands succeed, the
  volume is found at \<^verbatim>\<open>/mnt\<close> and the first write of every pass meets \<open>ENOSPC\<close>.
\<close>

definition hpa_env :: format_env where
  "hpa_env = \<lparr>system = Linux, disk_exists = True, which_hdparm = Result 0,
      hdparm_N = Result \<lparr>returncode = 0, stdout = ''max sectors = 100/200, HPA is enabled''\<rparr>,
      hdparm_I = Result \<lparr>returncode = 0, stdout = ''''\<rparr>,
      diskutil_info = Throws,
      hdparm_native_max = Result \<lparr>returncode = 1, stdout = ''''\<rparr>,
      hdparm_dco_restore = Result \<lparr>returncode = 1, stdout = ''''\<rparr>,
      raw_write_error = Some 28, response = ''I UNDERSTAND'',
      format_cmd = (\<lambda>s. Result 0), found_mount_point = Some ''/mnt'', mount_free_space = 8,
      wipe = quiet_env [WriteError 28]\<rparr>"

text \<open>The same machine with an initial formatting command that returns status 1.\<close>

definition bad_format_env :: format_env where
  "bad_format_env = hpa_env\<lparr>format_cmd := (\<lambda>s. if s = Format then Result 1 else Result 0)\<rparr>"

text \<open>
  A Linux machine whose clock reads 1000 seconds, on which the benchmark call raises as
  it does in the source; a point in time is rendered by its whole seconds.
\<close>

definition linux_clock :: est_env where
  "linux_clock = \<lparr>est_system = Linux, path_writable = True, benchmark = BenchRaises,
                   clock = 1000, render = (\<lambda>t. str_nat (nat \<lfloor>t\<rfloor>))\<rparr>"

section \<open>Properties\<close>

subsection \<open>Pattern selection\<close>




subsection \<open>Chunks and the written counter\<close>

lemma length_bytes_mul: "length (bytes_mul b n) = nat n * length b"
  by (simp add: bytes_mul_def length_concat sum_list_replicate)

lemma os_urandom_length:
  "0 \<le> n \<Longrightarrow> \<exists>c. os_urandom src n = Inr c \<and> int (length c) = n"
  by (simp add: os_urandom_def)

lemma tiled_length:
  fixes n :: int
  assumes "0 \<le> n" and "length b = 5"
  shows "int (length (slice_to (bytes_mul b (n div int (length b) + 1)) n)) = n"
proof -
  have "n \<le> (n div 5 + 1) * 5"
    by presburger
  moreover have "0 \<le> n div 5 + 1"
    using assms(1) by presburger
  ultimately have "nat n \<le> nat (n div 5 + 1) * 5"
    using assms(1) by (metis nat_mono nat_mult_distrib nat_numeral)
  then show ?thesis
    using assms by (simp add: slice_to_def length_bytes_mul)
qed

lemma wipe_chunk_length:
  assumes "0 \<le> block_size"
  shows "\<exists>c. wipe_chunk src mode block_size = Inr c \<and> int (length c) = block_size"
proof -
  have t: "length ticks_bytes = 5" and h: "length haha_bytes = 5"
    by (simp_all add: ticks_bytes_def haha_bytes_def)
  show ?thesis
    unfolding wipe_chunk_def
    using assms os_urandom_length [OF assms, of src] tiled_length [OF assms t] tiled_length [OF assms h]
    by (simp add: length_bytes_mul)
qed

lemma format_chunk_length:
  assumes "0 \<le> block_size"
  shows "\<exists>c. format_chunk src mode block_size = Inr c \<and> int (length c) = block_size"
  unfolding format_chunk_def
  using assms os_urandom_length [OF assms, of src]
  by (simp add: length_bytes_mul)

lemma wipe_write_loop_written:
  assumes "0 < block_size"
    and "wipe_write_loop src mode block_size rs k written chunks = Some (ex, written', chunks', k')"
    and "\<forall>c \<in> set chunks. int (length c) = block_size"
  shows "(\<forall>c \<in> set chunks'. int (length c) = block_size)
       \<and> written' = written + block_size * (int (length chunks') - int (length chunks))
       \<and> length chunks \<le> length chunks'"
  using assms(2,3)
proof (induction rs arbitrary: k written chunks)
  case Nil
  obtain c where "wipe_chunk (src k) mode block_size = Inr c"
    using wipe_chunk_length [of block_size "src k" mode] assms(1) by auto
  with Nil show ?case by simp
next
  case (Cons r rs)
  obtain c where c: "wipe_chunk (src k) mode block_size = Inr c" "int (length c) = block_size"
    using wipe_chunk_length [of block_size "src k" mode] assms(1) by auto
  show ?case
  proof (cases r)
    case Written
    with Cons.prems c assms(1)
    have run: "wipe_write_loop src mode block_size rs (Suc k) (written + block_size) (chunks @ [c])
                 = Some (ex, written', chunks', k')"
      by simp
    have "\<forall>x \<in> set (chunks @ [c]). int (length x) = block_size"
      using Cons.prems(2) c(2) by simp
    from Cons.IH [OF run this] show ?thesis
      by (simp add: algebra_simps)
  next
    case (WriteError e)
    with Cons.prems c show ?thesis by simp
  next
    case Interrupt
    with Cons.prems c show ?thesis by simp
  qed
qed

lemma format_write_loop_written:
  assumes "0 < block_size"
    and "format_write_loop src mode block_size rs k written chunks = Some (ex, written', chunks', k')"
    and "\<forall>c \<in> set chunks. int (length c) = block_size"
  shows "(\<forall>c \<in> set chunks'. int (length c) = block_size)
       \<and> written' = written + block_size * (int (length chunks') - int (length chunks))
       \<and> length chunks \<le> length chunks'"
  using assms(2,3)
proof (induction rs arbitrary: k written chunks)
  case Nil
  obtain c where "format_chunk (src k) mode block_size = Inr c"
    using format_chunk_length [of block_size "src k" mode] assms(1) by auto
  with Nil show ?case by simp
next
  case (Cons r rs)
  obtain c where c: "format_chunk (src k) mode block_size = Inr c" "int (length c) = block_size"
    using format_chunk_length [of block_size "src k" mode] assms(1) by auto
  show ?case
  proof (cases r)
    case Written
    with Cons.prems c assms(1)
    have run: "format_write_loop src mode block_size rs (Suc k) (written + block_size) (chunks @ [c])
                 = Some (ex, written', chunks', k')"
      by simp
    have "\<forall>x \<in> set (chunks @ [c]). int (length x) = block_size"
      using Cons.prems(2) c(2) by simp
    from Cons.IH [OF run this] show ?thesis
      by (simp add: algebra_simps)
  next
    case (WriteError e)
    with Cons.prems c show ?thesis by simp
  next
    case Interrupt
    with Cons.prems c show ?thesis by simp
  qed
qed

text \<open>
  Claim C9. For a positive block size, every chunk a pass writes has exactly
  \<open>block_size\<close> bytes, whatever the mode (in both write loops), so that whenever a
  write loop is left, \<open>written\<close> is \<open>block_size\<close> times the number of chunks in the
  file: it grew by \<open>block_size\<close> per chunk and is a multiple of \<open>block_size\<close>. Since
  the list of write results is arbitrary, this covers the counter after every number
  of writes.
\<close>

theorem chunks_have_block_size:
  assumes "0 < block_size"
  shows "(\<exists>c. wipe_chunk src mode block_size = Inr c \<and> int (length c) = block_size)
       \<and> (\<exists>c. format_chunk src mode block_size = Inr c \<and> int (length c) = block_size)
       \<and> (wipe_write_loop src2 mode block_size rs 0 0 [] = Some (ex, written, chunks, calls) \<longrightarrow>
            (\<forall>c \<in> set chunks. int (length c) = block_size)
            \<and> written = block_size * int (length chunks) \<and> written mod block_size = 0)
       \<and> (format_write_loop src2 mode block_size rs 0 0 [] = Some (fex, fwritten, fchunks, fcalls) \<longrightarrow>
            (\<forall>c \<in> set fchunks. int (length c) = block_size)
            \<and> fwritten = block_size * int (length fchunks) \<and> fwritten mod block_size = 0)"
proof -
  have nn: "0 \<le> block_size" using assms by simp
  have w: "wipe_write_loop src2 mode block_size rs 0 0 [] = Some (ex, written, chunks, calls) \<longrightarrow>
            (\<forall>c \<in> set chunks. int (length c) = block_size)
            \<and> written = block_size * int (length chunks) \<and> written mod block_size = 0"
    using wipe_write_loop_written [OF assms, of src2 mode rs 0 0 "[]" ex written chunks calls]
    by auto
  have f: "format_write_loop src2 mode block_size rs 0 0 [] = Some (fex, fwritten, fchunks, fcalls) \<longrightarrow>
            (\<forall>c \<in> set fchunks. int (length c) = block_size)
            \<and> fwritten = block_size * int (length fchunks) \<and> fwritten mod block_size = 0"
    using format_write_loop_written [OF assms, of src2 mode rs 0 0 "[]" fex fwritten fchunks fcalls]
    by auto
  show ?thesis
    using wipe_chunk_length [OF nn, of src mode] format_chunk_length [OF nn, of src mode] w f
    by blast
qed

theorem chunks_have_block_size_witness:
  "(0::int) < 7
   \<and> wipe_chunk (\<lambda>i. 0) ''ticks'' 7 = Inr [0x33, 0x3D, 0x3D, 0x3D, 0x44, 0x33, 0x3D]
   \<and> wipe_write_loop (\<lambda>k i. 0) ''haha'' 7 [Written, Written, WriteError 28] 0 0 []
       = Some (Raised (OSError 28), 14,
               [[0x68, 0x61, 0x68, 0x61, 0x2D, 0x68, 0x61], [0x68, 0x61, 0x68, 0x61, 0x2D, 0x68, 0x61]], 3)
   \<and> (14::int) = 7 * int (length [[0x68, 0x61, 0x68, 0x61, 0x2D, 0x68, 0x61::byte],
                                    [0x68, 0x61, 0x68, 0x61, 0x2D, 0x68, 0x61]])
   \<and> (14::int) mod 7 = 0"
proof -
  have h: "(0::int) < 7" by simp
  have c: "wipe_chunk (\<lambda>i. 0) ''ticks'' 7 = Inr [0x33, 0x3D, 0x3D, 0x3D, 0x44, 0x33, 0x3D]"
    by code_simp
  have l: "wipe_write_loop (\<lambda>k i. 0) ''haha'' 7 [Written, Written, WriteError 28] 0 0 []
       = Some (Raised (OSError 28), 14,
               [[0x68, 0x61, 0x68, 0x61, 0x2D, 0x68, 0x61], [0x68, 0x61, 0x68, 0x61, 0x2D, 0x68, 0x61]], 3)"
    by code_simp
  show ?thesis
    using h c l
      chunks_have_block_size [OF h, of "\<lambda>i. 0" "''ticks''" "\<lambda>k i. 0" "[Written, Written, WriteError 28]"
        "Raised (OSError 28)" 14
        "[[0x68, 0x61, 0x68, 0x61, 0x2D, 0x68, 0x61], [0x68, 0x61, 0x68, 0x61, 0x2D, 0x68, 0x61]]" 3]
    by simp
qed

subsection \<open>State bookkeeping\<close>

lemma say_fields [simp]:
  "disk (say m st) = disk st" "temp_files (say m st) = temp_files st"
  "container (say m st) = container st" "bar_disabled (say m st) = bar_disabled st"
  "out (say m st) = out st @ [m]" "removes (say m st) = removes st"
  "write_calls (say m st) = write_calls st" "trace (say m st) = trace st"
  by (simp_all add: say_def)

lemma os_remove_fields:
  assumes "os_remove env path st = (x, st')"
  shows "temp_files st' = temp_files st" "container st' = container st"
    "bar_disabled st' = bar_disabled st" "out st' = out st" "trace st' = trace st"
    "write_calls st' = write_calls st"
    "disk st f = None \<Longrightarrow> disk st' f = None"
    "x = None \<Longrightarrow> disk st' path = None"
    "remove_error env (removes st) path = None \<Longrightarrow> x = None"
    "x \<noteq> None \<Longrightarrow> disk st' = disk st"
  using assms by (auto simp add: os_remove_def split: option.splits)




subsection \<open>An OSError during a pass\<close>











subsection \<open>No free space\<close>

text \<open>
  Claim C4 at a failing input. On a target with 0 bytes free (both queries answer 0),
  one pass, no confirmation: \<^verbatim>\<open>wipe_free_space\<close> prints the status box and runs the
  pass; it calls \<^verbatim>\<open>f.write\<close> (once when the first write meets \<open>ENOSPC\<close>; three
  times, two chunks reaching the file, when the volume still takes two blocks, as for a
  privileged process on a volume with reserved blocks), reports the pass and the wipe
  as complete and never reports that there is no free space.
\<close>

theorem zero_free_space_still_writes:
  "seen (wipe_free_space (quiet_env [WriteError 28]) ''/mnt'' 0 1 4 False ''zeroes'' True
           (start Map.empty))
     = Some (0, [StatusBox 0, PassStart 1 ''zeroes'', PassComplete 1, WipingComplete])
   \<and> map_option (\<lambda>(e, st). write_calls st)
        (wipe_free_space (quiet_env [WriteError 28]) ''/mnt'' 0 1 4 False ''zeroes'' True
           (start Map.empty)) = Some 1
   \<and> map_option (\<lambda>(e, st). write_calls st)
        (wipe_free_space (quiet_env [Written, Written, WriteError 28]) ''/mnt'' 0 1 4 False ''zeroes''
           True (start Map.empty)) = Some 3"
  by code_simp

subsection \<open>The interrupt handler\<close>




subsection \<open>The full-disk pipeline\<close>

lemma invoke_fields [simp]:
  "trace (invoke s st) = trace st @ [s]" "out (invoke s st) = out st"
  "disk (invoke s st) = disk st" "temp_files (invoke s st) = temp_files st"
  by (simp_all add: invoke_def)

lemma says_fields [simp]:
  "trace (says ms st) = trace st" "out (says ms st) = out st @ ms"
  by (simp_all add: says_def)

lemma hidden_area_removal_failed:
  assumes "\<not> (has_hidden \<and> fst (remove_hpa_dco env))"
  shows "\<exists>st'. hidden_area_removal env has_hidden st = Some st'
          \<and> trace st' = trace st @ (if has_hidden then [HiddenAreaRemoval] else [])"
  using assms
  by (cases "remove_hpa_dco env") (auto simp add: hidden_area_removal_def Let_def)

lemma prepare_disk_failed:
  assumes "\<not> (fst (check_hpa_dco env) \<and> fst (remove_hpa_dco env))"
  shows "\<exists>st'. prepare_disk env st = Some st'
          \<and> trace st' = trace st @ [CacheFlush, RemappedSectors, HiddenAreaCheck]
               @ (if fst (check_hpa_dco env) then [HiddenAreaRemoval] else [])
               @ [EnhancedErase, SmartClear, CacheFlush]"
proof -
  obtain h ms where c: "check_hpa_dco env = (h, ms)"
    by (cases "check_hpa_dco env")
  let ?st2 = "says ms (invoke HiddenAreaCheck (invoke RemappedSectors (invoke CacheFlush st)))"
  obtain st3 where r: "hidden_area_removal env h ?st2 = Some st3"
      "trace st3 = trace ?st2 @ (if h then [HiddenAreaRemoval] else [])"
    using hidden_area_removal_failed [of h env ?st2] assms c by auto
  show ?thesis
    using c r by (simp add: prepare_disk_def Let_def)
qed

lemma prepare_disk_trace:
  assumes "prepare_disk env st = Some st'"
  shows "\<exists>mid. trace st' = trace st @ [CacheFlush, RemappedSectors, HiddenAreaCheck] @ mid
                 @ [EnhancedErase, SmartClear, CacheFlush]
          \<and> set mid \<subseteq> {HiddenAreaRemoval, RawOverwrite}"
proof -
  obtain h ms where c: "check_hpa_dco env = (h, ms)"
    by (cases "check_hpa_dco env")
  obtain s rs where m: "remove_hpa_dco env = (s, rs)"
    by (cases "remove_hpa_dco env")
  let ?st2 = "says ms (invoke HiddenAreaCheck (invoke RemappedSectors (invoke CacheFlush st)))"
  from assms c obtain st3 where r: "hidden_area_removal env h ?st2 = Some st3"
    and e: "st' = invoke CacheFlush (invoke SmartClear (invoke EnhancedErase st3))"
    by (auto simp add: prepare_disk_def Let_def split: option.splits)
  from r m have "\<exists>mid. trace st3 = trace ?st2 @ mid \<and> set mid \<subseteq> {HiddenAreaRemoval, RawOverwrite}"
    by (auto simp add: hidden_area_removal_def Let_def split: if_splits option.splits)
  then show ?thesis
    using e by auto
qed

lemma perform_format_fails:
  assumes "format_fails env step"
  shows "perform_format env filesystem step st = (Some (SystemExit 1), say FormatError (invoke step st))"
  using assms by (simp add: perform_format_def Let_def)

lemma prepare_disk_untouched:
  assumes "prepare_disk env st = Some st'"
  shows "write_calls st' = write_calls st \<and> disk st' = disk st"
proof -
  obtain h ms where c: "check_hpa_dco env = (h, ms)"
    by (cases "check_hpa_dco env")
  obtain s rs where m: "remove_hpa_dco env = (s, rs)"
    by (cases "remove_hpa_dco env")
  show ?thesis
    using assms c m
    by (auto simp add: prepare_disk_def hidden_area_removal_def Let_def invoke_def says_def say_def
        split: option.splits if_splits)
qed

text \<open>
  Claim C2. When the run reaches the initial Format step (the disk path exists, the
  preparation returned and the confirmation was given or skipped) and the formatting
  command of that step raises or returns a non-zero status, \<^verbatim>\<open>format_disk\<close> ends
  with exit code 1; Format is the last stage invoked: neither the mount lookup, nor the
  free-space wipe, nor the final Reformat runs, no \<^verbatim>\<open>f.write\<close> is called and the
  files are as they were.
\<close>

theorem format_failure_is_fatal:
  assumes "system env = Windows \<or> disk_exists env"
    and "prepare_disk env (start d) = Some st4"
    and "no_confirm \<or> strip (response env) = ''I UNDERSTAND''"
    and "format_fails env Format"
  shows "\<exists>st. format_disk env filesystem no_confirm passes pattern (start d) = Some (Some (SystemExit 1), st)
          \<and> exit_code (Some (SystemExit 1)) = 1
          \<and> last (trace st) = Format
          \<and> MountLookup \<notin> set (trace st) \<and> FreeSpaceWipe \<notin> set (trace st)
          \<and> Reformat \<notin> set (trace st) \<and> write_calls st = 0 \<and> disk st = d"
proof -
  let ?st = "say FormatError (invoke Format st4)"
  have run: "format_disk env filesystem no_confirm passes pattern (start d) = Some (Some (SystemExit 1), ?st)"
    using assms perform_format_fails [OF assms(4), of filesystem st4]
    by (auto simp add: format_disk_def erase_steps_def)
  obtain mid where t: "trace st4 = trace (start d) @ [CacheFlush, RemappedSectors, HiddenAreaCheck] @ mid
                 @ [EnhancedErase, SmartClear, CacheFlush]"
      "set mid \<subseteq> {HiddenAreaRemoval, RawOverwrite}"
    using prepare_disk_trace [OF assms(2)] by blast
  have s: "trace (start d) = []" "write_calls (start d) = 0" "disk (start d) = d"
    by (simp_all add: start_def)
  have "trace ?st = [CacheFlush, RemappedSectors, HiddenAreaCheck] @ mid
                 @ [EnhancedErase, SmartClear, CacheFlush, Format]"
    using t(1) s(1) by simp
  then have "last (trace ?st) = Format \<and> MountLookup \<notin> set (trace ?st)
      \<and> FreeSpaceWipe \<notin> set (trace ?st) \<and> Reformat \<notin> set (trace ?st)"
    using t(2) by auto
  moreover have "write_calls ?st = 0 \<and> disk ?st = d"
    using prepare_disk_untouched [OF assms(2)] s by (simp add: invoke_def)
  ultimately show ?thesis
    using run by simp
qed

theorem format_failure_is_fatal_witness:
  "(system bad_format_env = Windows \<or> disk_exists bad_format_env)
   \<and> strip (response bad_format_env) = ''I UNDERSTAND''
   \<and> format_fails bad_format_env Format
   \<and> (\<exists>st. format_disk bad_format_env ''ext4'' False 3 ''all'' (start Map.empty)
              = Some (Some (SystemExit 1), st)
          \<and> last (trace st) = Format \<and> FreeSpaceWipe \<notin> set (trace st) \<and> Reformat \<notin> set (trace st)
          \<and> write_calls st = 0)
   \<and> stages_run (format_disk bad_format_env ''ext4'' False 3 ''all'' (start Map.empty))
       = Some (1, [CacheFlush, RemappedSectors, HiddenAreaCheck, HiddenAreaRemoval,
                   EnhancedErase, SmartClear, CacheFlush, Format])"
proof -
  have h1: "system bad_format_env = Windows \<or> disk_exists bad_format_env"
    by (simp add: bad_format_env_def hpa_env_def)
  have h3: "False \<or> strip (response bad_format_env) = ''I UNDERSTAND''"
    by code_simp
  have h4: "format_fails bad_format_env Format"
    by (simp add: format_fails_def bad_format_env_def hpa_env_def)
  have "\<not> (fst (check_hpa_dco bad_format_env) \<and> fst (remove_hpa_dco bad_format_env))"
    by code_simp
  then obtain st4 where h2: "prepare_disk bad_format_env (start Map.empty) = Some st4"
    using prepare_disk_failed [of bad_format_env "start Map.empty"] by blast
  have e: "stages_run (format_disk bad_format_env ''ext4'' False 3 ''all'' (start Map.empty))
       = Some (1, [CacheFlush, RemappedSectors, HiddenAreaCheck, HiddenAreaRemoval,
                   EnhancedErase, SmartClear, CacheFlush, Format])"
    by code_simp
  show ?thesis
    using h1 h3 h4 e format_failure_is_fatal [OF h1 h2 h3 h4, of "''ext4''" 3 "''all''"]
    by auto
qed














subsection \<open>The time estimate\<close>

lemma estimate_write_speed_positive: "0 < estimate_write_speed sys"
  by (cases sys) (simp_all add: estimate_write_speed_def)

lemma speed_without_measurement:
  assumes "no_measurement env include_benchmark path"
  shows "estimated_speed (estimate_operation_time env data_size passes include_benchmark path)
           = of_int (estimate_write_speed (est_system env))"
  using assms
  by (auto simp add: no_measurement_def estimate_operation_time_def Let_def
      split: benchmark_outcome.splits option.splits)

text \<open>
  Claim C5. When no benchmark measurement is available, the estimate uses the heuristic
  speed \<open>S\<close> of the platform, which is positive, and with
  \<open>T = (data_size / S) * passes + 2 * passes\<close> the estimated seconds are
  \<open>T + min 30 (T / 10)\<close>; the completion time returned is the rendering of the
  current time plus the estimated seconds.
\<close>

theorem estimate_without_benchmark:
  assumes "no_measurement env include_benchmark path"
  shows "(let S = of_int (estimate_write_speed (est_system env));
              T = of_int data_size / S * of_int passes + 2 * of_int passes;
              r = estimate_operation_time env data_size passes include_benchmark path
          in 0 < S \<and> estimated_speed r = S
             \<and> estimated_seconds r = T + min 30 (1 / 10 * T)
             \<and> completion_time r = render env (clock env + estimated_seconds r))"
proof -
  have "(0::rat) < of_int (estimate_write_speed (est_system env))"
    using estimate_write_speed_positive [of "est_system env"] by simp
  moreover have "estimated_seconds (estimate_operation_time env data_size passes include_benchmark path)
      = of_int data_size / estimated_speed (estimate_operation_time env data_size passes include_benchmark path)
          * of_int passes + 2 * of_int passes
        + min 30 (1 / 10 * (of_int data_size
            / estimated_speed (estimate_operation_time env data_size passes include_benchmark path)
              * of_int passes + 2 * of_int passes))"
    by (simp add: estimate_operation_time_def Let_def mult.commute)
  moreover have "completion_time (estimate_operation_time env data_size passes include_benchmark path)
      = render env (clock env
          + estimated_seconds (estimate_operation_time env data_size passes include_benchmark path))"
    by (simp add: estimate_operation_time_def Let_def)
  ultimately show ?thesis
    using speed_without_measurement [OF assms, of data_size passes]
    by (simp add: Let_def)
qed

theorem estimate_without_benchmark_witness:
  "no_measurement linux_clock True (Some ''/mnt'')
   \<and> estimated_speed (estimate_operation_time linux_clock 10737418240 3 True (Some ''/mnt'')) = 104857600
   \<and> estimated_seconds (estimate_operation_time linux_clock 10737418240 3 True (Some ''/mnt'')) = 3432 / 10
   \<and> completion_time (estimate_operation_time linux_clock 10737418240 3 True (Some ''/mnt'')) = ''1343''"
proof -
  have h: "no_measurement linux_clock True (Some ''/mnt'')"
    by (simp add: no_measurement_def linux_clock_def)
  have s: "estimate_write_speed (est_system linux_clock) = 104857600"
    by (simp add: linux_clock_def estimate_write_speed_def)
  have c: "clock linux_clock = 1000" "render linux_clock = (\<lambda>t. str_nat (nat \<lfloor>t\<rfloor>))"
    by (simp_all add: linux_clock_def)
  have r: "str_nat (nat \<lfloor>1000 + 3432 / (10::rat)\<rfloor>) = ''1343''"
    by code_simp
  let ?r = "estimate_operation_time linux_clock 10737418240 3 True (Some ''/mnt'')"
  from estimate_without_benchmark [OF h, of 10737418240 3]
  have e: "estimated_speed ?r = 104857600" "estimated_seconds ?r = 3432 / 10"
    and t: "completion_time ?r = render linux_clock (clock linux_clock + estimated_seconds ?r)"
    by (simp_all add: Let_def s)
  have "completion_time ?r = ''1343''"
    unfolding t e(2) c using r by simp
  then show ?thesis
    using h e by simp
qed

subsection \<open>Size strings\<close>

lemma size_defaults:
  "format_size None = ''Unknown''" "format_size (Some 0) = ''Unknown''"
  "parse_size None = Inr 0" "parse_size (Some '''') = Inr 0" "parse_size (Some ''Unknown'') = Inr 0"
  by (simp_all add: format_size_def parse_size_def)

text \<open>
  Claim C10 at failing inputs. \<^verbatim>\<open>parse_size\<close> is not total: a string that matches the
  pattern and whose number has two points, or no digit at all, makes
  \<^verbatim>\<open>float\<close> raise \<open>ValueError\<close>, which nothing catches; and a bare negative integer
  comes back as it is, a negative number.
\<close>

theorem parse_size_raises:
  "parse_size (Some ''1.2.3GB'') = Inl ValueError
   \<and> parse_size (Some '',KB'') = Inl ValueError
   \<and> parse_size (Some ''1.2.3 XB'') = Inl ValueError
   \<and> parse_size (Some ''-5'') = Inr (- 5)"
  by code_simp

subsection \<open>The round trip through a size string\<close>




























end
